theory Spec2Isabelle
  imports Main
begin

section \<open>Semantic analysis of RealHotGirlScript: scopes\<close>

text \<open>
  This theory embeds the semantic analysis pass of the compiler
  (\<^verbatim>\<open>src/semantics/analyzer.js\<close>) and its scope objects
  (\<^verbatim>\<open>src/semantics/context.js\<close>).

  The source signals every violation with \<^verbatim>\<open>throw new Error(msg)\<close>; the
  embedding returns the error as a value. \<open>Error msg\<close> is a throw written in
  the two source files, with its message. \<open>TypeError call\<close> is the exception
  the JavaScript runtime itself raises when the method call \<open>call\<close> finds
  no such method (the receiver is \<^verbatim>\<open>undefined\<close>, or has no such property).
  \<open>CheckError h\<close> is raised by the helper \<^verbatim>\<open>check.h\<close>; the module
  \<^verbatim>\<open>./check\<close> is required by the analyzer but is not among the source
  files, so its messages are not known.
\<close>

datatype error = Error string | TypeError string | CheckError string

subsection \<open>Type descriptors\<close>

text \<open>
  The five primitive descriptors are module-level singletons. A composite
  descriptor is an object made by \<^verbatim>\<open>new ArrayType(...)\<close> and the like;
  its first field here is the identity of that object (a reference), because
  the tuple rule collects descriptors in a JavaScript \<^verbatim>\<open>Set\<close>, which
  compares objects by identity. A member type is optional: the rules read it
  from the \<^verbatim>\<open>type\<close> property of a node, which some rules never set.
\<close>

type_synonym ref = nat

datatype ty =
    IntType
  | LongType
  | StringType
  | BooleanType
  | NoneType
  | ArrayType ref "ty option"
  | SetType ref "ty option"
  | DictType ref "ty option" "ty option"
  | TupleType ref "ty option list"
  | NullableType ref ty
  | IdType ref string

text \<open>
  Modelled from the spec: the type system's \<^verbatim>\<open>equal\<close> (section 3, "two
  descriptors are equal iff same variant and structurally equal component
  types"); the source file that implements it is \<^verbatim>\<open>./check\<close>, which is
  missing. \<open>erase\<close> forgets the object identities, so that equality of the
  erased descriptors is structural equality.
\<close>

fun erase :: "ty \<Rightarrow> ty" where
  "erase IntType = IntType"
| "erase LongType = LongType"
| "erase StringType = StringType"
| "erase BooleanType = BooleanType"
| "erase NoneType = NoneType"
| "erase (ArrayType r m) = ArrayType 0 (map_option erase m)"
| "erase (SetType r m) = SetType 0 (map_option erase m)"
| "erase (DictType r k v) = DictType 0 (map_option erase k) (map_option erase v)"
| "erase (TupleType r ms) = TupleType 0 (map (map_option erase) ms)"
| "erase (NullableType r t) = NullableType 0 (erase t)"
| "erase (IdType r c) = IdType 0 c"

text \<open>Modelled from the spec: the same \<^verbatim>\<open>equal\<close> of section 3, on two descriptors.\<close>

definition type_equal :: "ty \<Rightarrow> ty \<Rightarrow> bool" where
  "type_equal a b = (erase a = erase b)"

text \<open>
  Modelled from the spec: \<^verbatim>\<open>assignable\<close> (section 3, "identical type, or
  a Nullable<T> accepting a bare T or the null sentinel"); its source file
  \<^verbatim>\<open>./check\<close> is missing.
\<close>

definition assignable :: "ty \<Rightarrow> ty \<Rightarrow> bool" where
  "assignable source target =
     (type_equal source target \<or>
      (case target of
         NullableType r t \<Rightarrow> type_equal source t \<or> source = NoneType
       | _ \<Rightarrow> False))"

subsection \<open>Declaration entities\<close>

text \<open>
  The values stored in a scope are the declaration objects themselves. The
  embedding keeps the fields that the rules read through a scope: the
  \<^verbatim>\<open>type\<close>, and for a function its \<^verbatim>\<open>async\<close> flag and the types of
  its parameters. \<open>IndexE\<close> is the \<^verbatim>\<open>VariableDeclaration\<close> that the
  classic for loop builds for its index. The modules
  \<^verbatim>\<open>./builtins\<close> (standard functions, primitive types with their
  \<^verbatim>\<open>name\<close>) are missing; they enter as parameters of \<open>INITIAL\<close>.
\<close>

datatype standard_function = StandardFunction (fid: string)

datatype primitive = Primitive (name: string)

datatype entity =
    VariableE bool ty string
  | ParameterE ty string
  | FunctionE bool ty string "ty list"
  | IndexE "ty option" string
  | ClassE string
  | StandardE standard_function
  | PrimitiveE primitive

fun entity_type :: "entity \<Rightarrow> ty option" where
  "entity_type (VariableE c t i) = Some t"
| "entity_type (ParameterE t i) = Some t"
| "entity_type (FunctionE a t i ps) = Some t"
| "entity_type (IndexE t i) = t"
| "entity_type (ClassE i) = None"
| "entity_type (StandardE f) = None"
| "entity_type (PrimitiveE p) = None"

subsection \<open>JavaScript Map objects\<close>

text \<open>
  A \<^verbatim>\<open>Map\<close> object has its key/value entries, read by
  \<^verbatim>\<open>has\<close>/\<^verbatim>\<open>get\<close> and written by \<^verbatim>\<open>set\<close>, and, like every
  object, ordinary properties written by \<^verbatim>\<open>m[k] = v\<close>. The two are
  separate: a property is not an entry.
\<close>

datatype jsmap = JsMap (entries: "(string \<times> entity) list") (props: "(string \<times> entity) list")

definition new_Map :: jsmap where
  "new_Map = JsMap [] []"

definition map_has :: "jsmap \<Rightarrow> string \<Rightarrow> bool" where
  "map_has m k = (map_of (entries m) k \<noteq> None)"

definition map_get :: "jsmap \<Rightarrow> string \<Rightarrow> entity option" where
  "map_get m k = map_of (entries m) k"

fun update_entry :: "string \<Rightarrow> entity \<Rightarrow> (string \<times> entity) list \<Rightarrow> (string \<times> entity) list" where
  "update_entry k v [] = [(k, v)]"
| "update_entry k v (p # ps) = (if fst p = k then (k, v) # ps else p # update_entry k v ps)"

definition map_set :: "string \<Rightarrow> entity \<Rightarrow> jsmap \<Rightarrow> jsmap" where
  "map_set k v m = JsMap (update_entry k v (entries m)) (props m)"

definition prop_set :: "string \<Rightarrow> entity \<Rightarrow> jsmap \<Rightarrow> jsmap" where
  "prop_set k v m = JsMap (entries m) (update_entry k v (props m))"

subsection \<open>Context\<close>

text \<open>
  \<^verbatim>\<open>class Context\<close>: the parent link (\<^verbatim>\<open>null\<close> at the root), the
  function being analyzed, the loop flag and the two tables. A child holds its
  parent by value. That is faithful because a rule only ever declares into
  the context it is analyzing in or into a child it has just made, never
  into an ancestor of the current context; the one rule that declares into
  a context after making a child of it (the function declaration) rebuilds
  the child explicitly.
\<close>

datatype ctxt = Context
  (parent: "ctxt option")
  (currentFunction: "entity option")
  (inLoop: bool)
  (variableDeclarations: jsmap)
  (classDeclarations: jsmap)

definition new_Context :: "ctxt option \<Rightarrow> entity option \<Rightarrow> bool \<Rightarrow> ctxt" where
  "new_Context p f l = Context p f l new_Map new_Map"

definition createChildContextForFunctionBody :: "ctxt \<Rightarrow> entity option \<Rightarrow> ctxt" where
  "createChildContextForFunctionBody this f = new_Context (Some this) f False"

definition createChildContextForLoop :: "ctxt \<Rightarrow> ctxt" where
  "createChildContextForLoop this = new_Context (Some this) (currentFunction this) True"

definition createChildContextForBlock :: "ctxt \<Rightarrow> ctxt" where
  "createChildContextForBlock this = new_Context (Some this) (currentFunction this) (inLoop this)"

definition addVar :: "ctxt \<Rightarrow> string \<Rightarrow> entity \<Rightarrow> error + ctxt" where
  "addVar this i e =
     (if map_has (variableDeclarations this) i
      then Inl (Error ''Identifier already declared in this scope'')
      else Inr (Context (parent this) (currentFunction this) (inLoop this)
                  (map_set i e (variableDeclarations this)) (classDeclarations this)))"

definition addClass :: "ctxt \<Rightarrow> string \<Rightarrow> entity \<Rightarrow> error + ctxt" where
  "addClass this i e =
     (if map_has (classDeclarations this) i
      then Inl (Error ''Class identifier already declared in this scope'')
      else Inr (Context (parent this) (currentFunction this) (inLoop this)
                  (variableDeclarations this) (map_set i e (classDeclarations this))))"

definition not_declared :: "string \<Rightarrow> error" where
  "not_declared i = Error (''Identifier '' @ i @ '' has not been declared'')"

fun lookupVar :: "ctxt \<Rightarrow> string \<Rightarrow> error + entity" where
  "lookupVar (Context p f l vs cs) i =
     (case map_get vs i of
        Some e \<Rightarrow> Inr e
      | None \<Rightarrow> (case p of None \<Rightarrow> Inl (not_declared i) | Some c \<Rightarrow> lookupVar c i))"

fun lookupClass :: "ctxt \<Rightarrow> string \<Rightarrow> error + entity" where
  "lookupClass (Context p f l vs cs) i =
     (case map_get cs i of
        Some e \<Rightarrow> Inr e
      | None \<Rightarrow> (case p of None \<Rightarrow> Inl (not_declared i) | Some c \<Rightarrow> lookupClass c i))"

text \<open>
  \<^verbatim>\<open>Context.INITIAL\<close>: a fresh root context; every standard function is
  stored with \<^verbatim>\<open>variableDeclarations[f.id] = f\<close> (a property of the Map
  object), every primitive type with
  \<^verbatim>\<open>classDeclarations.set(type.name, type)\<close> (an entry). The source
  passes the five primitives \<^verbatim>\<open>[IntType, LongType, StringType, BoolType,
  NoneType]\<close> of \<^verbatim>\<open>./builtins\<close>. The names of the standard functions
  are taken to differ from the members of \<^verbatim>\<open>Map.prototype\<close>
  (\<^verbatim>\<open>has\<close>, \<^verbatim>\<open>get\<close>, \<^verbatim>\<open>set\<close>, ...): a property of such a name
  would hide the method on that Map object, and every later lookup would
  fail with a runtime error instead of the error of \<open>lookupVar\<close>.
\<close>

definition seed_function :: "standard_function \<Rightarrow> ctxt \<Rightarrow> ctxt" where
  "seed_function f c =
     Context (parent c) (currentFunction c) (inLoop c)
       (prop_set (fid f) (StandardE f) (variableDeclarations c)) (classDeclarations c)"

definition seed_type :: "primitive \<Rightarrow> ctxt \<Rightarrow> ctxt" where
  "seed_type t c =
     Context (parent c) (currentFunction c) (inLoop c)
       (variableDeclarations c) (map_set (name t) (PrimitiveE t) (classDeclarations c))"

definition INITIAL :: "standard_function list \<Rightarrow> primitive list \<Rightarrow> ctxt" where
  "INITIAL standardFunctions primitives =
     fold seed_type primitives (fold seed_function standardFunctions (new_Context None None False))"

section \<open>Syntax tree\<close>

text \<open>
  The node classes (\<^verbatim>\<open>src/ast/*\<close>) are missing from the source files;
  the constructors below carry the fields that the analysis rules read.
  The analyzer annotates the tree in place by assigning the \<^verbatim>\<open>type\<close>
  property of a node. The embedding makes the annotation the first field of
  every expression node: a tree from the parser is a \<open>unit exp\<close> (no type
  is set, as section 6 of the specification requires of the parser), the tree
  after analysis is a \<open>ty option exp\<close>, where \<open>None\<close> is a \<^verbatim>\<open>type\<close>
  property that was never assigned. Fields the analysis replaces by resolved
  entities (\<^verbatim>\<open>ref\<close>, the \<^verbatim>\<open>id\<close> of a call) keep their parsed value.

  Member access is outside the embedded fragment: its rule starts with
  \<^verbatim>\<open>check.hasMemberExpression\<close>, of which neither the source files nor
  the specification say anything, and then calls \<^verbatim>\<open>analyze\<close> on
  declaration entities. The rules for type nodes
  (\<^verbatim>\<open>ArrayType.prototype.analyze\<close> and the like) are never called by the
  rules for statements and expressions, every such call being commented out
  in the source; they are not embedded either.
\<close>

datatype 'a exp =
    StringLiteral (etype: 'a) string
  | NoneLiteral (etype: 'a)
  | BooleanLiteral (etype: 'a) bool
  | NumericLiteral (etype: 'a) int
  | ArrayExpression (etype: 'a) "'a exp list"
  | SetExpression (etype: 'a) "'a exp list"
  | DictExpression (etype: 'a) "'a exp list"
  | KeyValueExpression (etype: 'a) "'a exp" "'a exp"
  | TupleExpression (etype: 'a) "'a exp list"
  | BinaryExpression (etype: 'a) string "'a exp" "'a exp"
  | UnaryExpression (etype: 'a) string "'a exp"
  | IdentifierExpression (etype: 'a) string
  | IdentifierDeclaration (etype: 'a) string
  | Call (etype: 'a) string "'a exp list" bool
  | Argument (etype: 'a) "'a exp"
  | SubscriptedExpression (etype: 'a) "'a exp" "'a exp"

type_synonym texp = "ty option exp"

text \<open>A node that no rule has visited: no \<^verbatim>\<open>type\<close> anywhere in it.\<close>

definition unanalyzed :: "unit exp \<Rightarrow> texp" where
  "unanalyzed e = map_exp (\<lambda>u. None) e"

text \<open>The \<^verbatim>\<open>id\<close> property of a node, \<^verbatim>\<open>undefined\<close> where the node has none.\<close>

fun node_id :: "'a exp \<Rightarrow> string option" where
  "node_id (IdentifierExpression a i) = Some i"
| "node_id (IdentifierDeclaration a i) = Some i"
| "node_id (Call a i args w) = Some i"
| "node_id e = None"

text \<open>The \<^verbatim>\<open>key\<close> and \<^verbatim>\<open>value\<close> properties of a node.\<close>

fun node_key :: "'a exp \<Rightarrow> 'a exp option" where
  "node_key (KeyValueExpression a k v) = Some k"
| "node_key e = None"

fun node_value :: "'a exp \<Rightarrow> 'a exp option" where
  "node_value (KeyValueExpression a k v) = Some v"
| "node_value e = None"

section \<open>The helpers of check\<close>

text \<open>
  Modelled from the spec: the helpers of the module \<^verbatim>\<open>./check\<close>, which
  the analyzer requires and which is missing from the source files. Each
  helper either returns or throws; what it tests is taken from the rule of
  section 4.3 of the specification in which the analyzer calls it, and from
  its name. A helper that tests a type reads the \<^verbatim>\<open>type\<close> property of
  the node it is given; a node without that property fails the test.
\<close>

text \<open>
  Modelled from the spec: the common shape of the missing helpers (section
  4.3, "every violated rule raises immediately"): return when the condition
  holds, throw otherwise.
\<close>

definition doCheck :: "bool \<Rightarrow> string \<Rightarrow> error + unit" where
  "doCheck condition helper = (if condition then Inr () else Inl (CheckError helper))"

text \<open>Modelled from the spec: "requires ... Integer" (binary, unary, subscript rules).\<close>

definition isInteger :: "texp \<Rightarrow> error + unit" where
  "isInteger e = doCheck (etype e = Some IntType) ''isInteger''"

text \<open>Modelled from the spec: "else a Long operand" (unary rule).\<close>

definition isLong :: "texp \<Rightarrow> error + unit" where
  "isLong e = doCheck (etype e = Some LongType) ''isLong''"

text \<open>Modelled from the spec: "must type to Boolean" (conditions, switch cases).\<close>

definition isBoolean :: "texp \<Rightarrow> error + unit" where
  "isBoolean e = doCheck (etype e = Some BooleanType) ''isBoolean''"

text \<open>Modelled from the spec: "String+String" (binary rule).\<close>

definition isString :: "texp \<Rightarrow> error + unit" where
  "isString e = doCheck (etype e = Some StringType) ''isString''"

text \<open>Modelled from the spec: "that type must be Integer or String" (comparison).\<close>

definition isIntegerOrString :: "texp \<Rightarrow> error + unit" where
  "isIntegerOrString e =
     doCheck (etype e = Some IntType \<or> etype e = Some StringType) ''isIntegerOrString''"

text \<open>
  Modelled from the spec: "must be Integer or Long" (range bounds; the update
  target of the classic for loop, where the helper is given an entity).
\<close>

definition isIntegerOrLong :: "ty option \<Rightarrow> error + unit" where
  "isIntegerOrLong t = doCheck (t = Some IntType \<or> t = Some LongType) ''isIntegerOrLong''"

text \<open>Modelled from the spec: "require operands of identical type".\<close>

definition sameType :: "texp \<Rightarrow> texp \<Rightarrow> error + unit" where
  "sameType l r =
     doCheck (case (etype l, etype r) of (Some a, Some b) \<Rightarrow> type_equal a b | _ \<Rightarrow> False)
       ''sameType''"

text \<open>
  Modelled from the spec: "type-checked assignable to" (section 4.3) with
  \<open>assignable\<close> of section 3. The first argument is a node, or
  \<^verbatim>\<open>undefined\<close> when the dictionary rule reads the \<^verbatim>\<open>key\<close> of a node
  that has none; the second is a type, or \<^verbatim>\<open>undefined\<close>.
\<close>

definition isAssignableTo :: "texp option \<Rightarrow> ty option \<Rightarrow> error + unit" where
  "isAssignableTo e t =
     doCheck (case (e, t) of
                (Some e', Some target) \<Rightarrow>
                  (case etype e' of Some source \<Rightarrow> assignable source target | None \<Rightarrow> False)
              | _ \<Rightarrow> False)
       ''isAssignableTo''"

text \<open>Modelled from the spec: "callee ... must denote a function or class".\<close>

fun is_function_or_class :: "entity \<Rightarrow> bool" where
  "is_function_or_class (FunctionE a t i ps) = True"
| "is_function_or_class (StandardE f) = True"
| "is_function_or_class (ClassE i) = True"
| "is_function_or_class e = False"

text \<open>Modelled from the spec: the helper that throws unless the callee is one.\<close>

definition isFunctionOrClass :: "entity \<Rightarrow> error + unit" where
  "isFunctionOrClass e = doCheck (is_function_or_class e) ''isFunctionOrClass''"

text \<open>The \<^verbatim>\<open>params\<close> property of the callee: the types of its parameters.\<close>

fun entity_params :: "entity \<Rightarrow> ty list option" where
  "entity_params (FunctionE a t i ps) = Some ps"
| "entity_params e = None"

text \<open>Modelled from the spec: the type of an argument is the type of the expression it wraps.\<close>

fun argument_type :: "texp \<Rightarrow> ty option" where
  "argument_type (Argument a e) = etype e"
| "argument_type e = etype e"

text \<open>
  Modelled from the spec: "argument count and types checked against the
  callee's declared parameters".
\<close>

definition legalArguments :: "texp list \<Rightarrow> ty list option \<Rightarrow> error + unit" where
  "legalArguments args params =
     doCheck (case params of
                None \<Rightarrow> False
              | Some ps \<Rightarrow>
                  length args = length ps \<and>
                  list_all2 (\<lambda>a p. case argument_type a of Some s \<Rightarrow> assignable s p | None \<Rightarrow> False)
                    args ps)
       ''legalArguments''"

text \<open>The \<^verbatim>\<open>async\<close> property of the callee, falsy where there is none.\<close>

fun entity_async :: "entity \<Rightarrow> bool" where
  "entity_async (FunctionE a t i ps) = a"
| "entity_async e = False"

text \<open>
  Modelled from the spec: "a call to a function declared asynchronous be
  marked as awaited by the caller, and vice versa".
\<close>

definition asyncAwait :: "bool \<Rightarrow> bool \<Rightarrow> error + unit" where
  "asyncAwait async wait = doCheck (async = wait) ''asyncAwait''"

text \<open>Modelled from the spec: "key/value types inferred from the first pair".\<close>

definition isKeyValueExpression :: "texp \<Rightarrow> error + unit" where
  "isKeyValueExpression e = doCheck (node_key e \<noteq> None) ''isKeyValueExpression''"

text \<open>
  Modelled from the spec: "base expression must resolve to a subscriptable
  collection type". The specification does not list the subscriptable
  collections; arrays, dictionaries and tuples are taken.
\<close>

fun subscriptable :: "ty option \<Rightarrow> bool" where
  "subscriptable (Some (ArrayType r m)) = True"
| "subscriptable (Some (DictType r k v)) = True"
| "subscriptable (Some (TupleType r ms)) = True"
| "subscriptable t = False"

text \<open>
  Modelled from the spec: the helper that throws unless the entity the base
  resolved to has a subscriptable type.
\<close>

definition isNotSubscriptable :: "entity \<Rightarrow> error + unit" where
  "isNotSubscriptable e = doCheck (subscriptable (entity_type e)) ''isNotSubscriptable''"

text \<open>Modelled from the spec: "legal only when ... inside_loop flag is true".\<close>

definition check_inLoop :: "ctxt \<Rightarrow> string \<Rightarrow> error + unit" where
  "check_inLoop context keyword = doCheck (inLoop context) ''inLoop''"

text \<open>Modelled from the spec: "legal only inside a function scope".\<close>

definition inFunction :: "ctxt \<Rightarrow> error + unit" where
  "inFunction context = doCheck (currentFunction context \<noteq> None) ''inFunction''"

text \<open>Modelled from the spec: "target count must equal source-expression count".\<close>

definition sameNumberOfInitializersAsVariables :: "'a list \<Rightarrow> 'b list \<Rightarrow> error + unit" where
  "sameNumberOfInitializersAsVariables expressions ids =
     doCheck (length expressions = length ids) ''sameNumberOfInitializersAsVariables''"

text \<open>
  Modelled from the spec: "each target must not be a constant declaration".
  The declaration of a target is the entity that its name resolves to in the
  context of the assignment.
\<close>

fun is_constant :: "error + entity \<Rightarrow> bool" where
  "is_constant (Inr (VariableE c t i)) = c"
| "is_constant r = False"

text \<open>Modelled from the spec: the helper that throws when the target is a constant.\<close>

definition isNotConstant :: "ctxt \<Rightarrow> texp \<Rightarrow> error + unit" where
  "isNotConstant context t =
     doCheck (case node_id t of None \<Rightarrow> True | Some i \<Rightarrow> \<not> is_constant (lookupVar context i))
       ''isNotConstant''"

section \<open>Analysis of expressions\<close>

text \<open>
  No expression rule of the fragment declares anything, so the context is
  only read. The analysis threads the next free object reference \<open>n\<close>:
  every \<^verbatim>\<open>new ...Type(...)\<close> takes it and moves it on. (The references
  of the descriptors that the parser made, in declarations, are meant to lie
  below the \<open>n\<close> the analysis starts with.) The result is the annotated
  node.
\<close>

subsection \<open>Operators\<close>

text \<open>
  \<^verbatim>\<open>/[\^\-*\%/]/.test(op)\<close>, \<^verbatim>\<open>/<=?|>=?/.test(op)\<close> and
  \<^verbatim>\<open>/[+]/.test(op)\<close> ask whether the operator contains one of some
  characters; \<^verbatim>\<open>/&&|\|\|/.test(op)\<close> asks whether it contains one of two
  substrings. None of the patterns is anchored.
\<close>

definition has_char :: "string \<Rightarrow> string \<Rightarrow> bool" where
  "has_char cs op = list_ex (\<lambda>c. c \<in> set cs) op"

fun is_prefix :: "string \<Rightarrow> string \<Rightarrow> bool" where
  "is_prefix [] s = True"
| "is_prefix (p # ps) [] = False"
| "is_prefix (p # ps) (c # cs) = (p = c \<and> is_prefix ps cs)"

fun has_substring :: "string \<Rightarrow> string \<Rightarrow> bool" where
  "has_substring p [] = is_prefix p []"
| "has_substring p (c # cs) = (is_prefix p (c # cs) \<or> has_substring p cs)"

definition BinaryExpression_type :: "string \<Rightarrow> texp \<Rightarrow> texp \<Rightarrow> error + ty" where
  "BinaryExpression_type op left right =
     (if has_char ''^-*%/'' op then
        (case isInteger left of Inl x \<Rightarrow> Inl x | Inr _ \<Rightarrow>
         (case isInteger right of Inl x \<Rightarrow> Inl x | Inr _ \<Rightarrow> Inr IntType))
      else if has_substring ''&&'' op \<or> has_substring ''||'' op then
        (case isBoolean left of Inl x \<Rightarrow> Inl x | Inr _ \<Rightarrow>
         (case isBoolean right of Inl x \<Rightarrow> Inl x | Inr _ \<Rightarrow> Inr BooleanType))
      else if has_char ''<>'' op then
        (case sameType left right of Inl x \<Rightarrow> Inl x | Inr _ \<Rightarrow>
         (case isIntegerOrString left of Inl x \<Rightarrow> Inl x | Inr _ \<Rightarrow>
          (case isIntegerOrString right of Inl x \<Rightarrow> Inl x | Inr _ \<Rightarrow> Inr BooleanType)))
      else if has_char ''+'' op then
        (case (isInteger left, isInteger right) of
           (Inr _, Inr _) \<Rightarrow> Inr IntType
         | _ \<Rightarrow>
           (case (isString left, isString right) of
              (Inr _, Inr _) \<Rightarrow> Inr StringType
            | _ \<Rightarrow> Inl (Error ''Cannot concatenate unless string or integer'')))
      else
        (case sameType left right of Inl x \<Rightarrow> Inl x | Inr _ \<Rightarrow> Inr BooleanType))"

text \<open>
  The unary rule sets a type in two branches; for an operator outside
  \<^verbatim>\<open>["BANGENERGY"]\<close> and \<^verbatim>\<open>["-", "+"]\<close> it falls through and sets none.
\<close>

definition UnaryExpression_type :: "string \<Rightarrow> texp \<Rightarrow> error + ty option" where
  "UnaryExpression_type op operand =
     (if op \<in> set [''BANGENERGY''] then
        (case isBoolean operand of Inl x \<Rightarrow> Inl x | Inr _ \<Rightarrow> Inr (Some BooleanType))
      else if op \<in> set [''-'', ''+''] then
        (case isInteger operand of
           Inr _ \<Rightarrow> Inr (Some IntType)
         | Inl _ \<Rightarrow>
           (case isLong operand of
              Inr _ \<Rightarrow> Inr (Some LongType)
            | Inl _ \<Rightarrow> Inl (Error ''Not an IntType'')))
      else Inr None)"

subsection \<open>Collection literals\<close>

text \<open>The loop \<^verbatim>\<open>for (let i = 1; ...)\<close> over the elements after the first.\<close>

fun members_assignable :: "texp list \<Rightarrow> ty option \<Rightarrow> error + unit" where
  "members_assignable [] t = Inr ()"
| "members_assignable (e # es) t =
     (case isAssignableTo (Some e) t of Inl x \<Rightarrow> Inl x | Inr _ \<Rightarrow> members_assignable es t)"

definition ArrayExpression_type :: "ref \<Rightarrow> texp list \<Rightarrow> error + (ref \<times> ty)" where
  "ArrayExpression_type n es =
     (case es of
        [] \<Rightarrow> Inr (Suc n, ArrayType n (Some NoneType))
      | e # rest \<Rightarrow>
        (case members_assignable rest (etype e) of
           Inl x \<Rightarrow> Inl x
         | Inr _ \<Rightarrow> Inr (Suc n, ArrayType n (etype e))))"

definition SetExpression_type :: "ref \<Rightarrow> texp list \<Rightarrow> error + (ref \<times> ty)" where
  "SetExpression_type n es =
     (case es of
        [] \<Rightarrow> Inr (Suc n, SetType n (Some NoneType))
      | e # rest \<Rightarrow>
        (case members_assignable rest (etype e) of
           Inl x \<Rightarrow> Inl x
         | Inr _ \<Rightarrow> Inr (Suc n, SetType n (etype e))))"

fun pairs_assignable :: "texp list \<Rightarrow> ty option \<Rightarrow> ty option \<Rightarrow> error + unit" where
  "pairs_assignable [] k v = Inr ()"
| "pairs_assignable (e # es) k v =
     (case isAssignableTo (node_key e) k of Inl x \<Rightarrow> Inl x | Inr _ \<Rightarrow>
      (case isAssignableTo (node_value e) v of Inl x \<Rightarrow> Inl x | Inr _ \<Rightarrow>
         pairs_assignable es k v))"

definition DictExpression_type :: "ref \<Rightarrow> texp list \<Rightarrow> error + (ref \<times> ty)" where
  "DictExpression_type n es =
     (case es of
        [] \<Rightarrow> Inr (Suc n, DictType n (Some NoneType) None)
      | e # rest \<Rightarrow>
        (case isKeyValueExpression e of
           Inl x \<Rightarrow> Inl x
         | Inr _ \<Rightarrow>
           (let keyType = (case node_key e of Some k \<Rightarrow> etype k | None \<Rightarrow> None);
                valueType = (case node_value e of Some v \<Rightarrow> etype v | None \<Rightarrow> None)
            in case pairs_assignable rest keyType valueType of
                 Inl x \<Rightarrow> Inl x
               | Inr _ \<Rightarrow> Inr (Suc n, DictType n keyType valueType))))"

text \<open>
  \<^verbatim>\<open>Set.prototype.add\<close> keeps the first occurrence of a value, in
  insertion order; \<^verbatim>\<open>[...memTypes]\<close> lists the set in that order. Two
  descriptors are the same value for the set when they are the same object:
  the same primitive, or composites with the same reference (no two objects
  share a reference). \<^verbatim>\<open>undefined\<close> is a value like any other.
\<close>

definition set_add :: "'a list \<Rightarrow> 'a \<Rightarrow> 'a list" where
  "set_add s x = (if x \<in> set s then s else s @ [x])"

definition TupleExpression_type :: "ref \<Rightarrow> texp list \<Rightarrow> ref \<times> ty" where
  "TupleExpression_type n es =
     (if es \<noteq> [] then (Suc n, TupleType n (foldl set_add [] (map etype es)))
      else (Suc n, SetType n (Some NoneType)))"

subsection \<open>The subscript rule's use of the entity\<close>

text \<open>
  \<^verbatim>\<open>context.lookupVar(this.varexp.id)\<close>: a base node without an
  \<^verbatim>\<open>id\<close> is looked up under \<^verbatim>\<open>undefined\<close>, which no table holds.
\<close>

definition lookup_id :: "ctxt \<Rightarrow> string option \<Rightarrow> error + entity" where
  "lookup_id c i = (case i of None \<Rightarrow> Inl (not_declared ''undefined'') | Some x \<Rightarrow> lookupVar c x)"

text \<open>
  \<^verbatim>\<open>this.varexp.analyze(context)\<close>, where \<^verbatim>\<open>this.varexp\<close> is by then
  the entity found in the scope. The analyzer attaches no \<^verbatim>\<open>analyze\<close> to
  \<^verbatim>\<open>Variable\<close>, nor to the objects of \<^verbatim>\<open>./builtins\<close>, so for these the
  call is a runtime error. For a declaration node the call would run its
  declaration rule a second time; that re-run is not embedded, and the value
  given here for it is never used: the call stands behind
  \<^verbatim>\<open>check.isInteger(this.subscript)\<close> on a subscript that has not been
  analyzed yet (lemma \<open>isInteger_unanalyzed\<close> below).
\<close>

fun entity_analyze :: "entity \<Rightarrow> error + unit" where
  "entity_analyze (VariableE c t i) = Inl (TypeError ''this.varexp.analyze'')"
| "entity_analyze (StandardE f) = Inl (TypeError ''this.varexp.analyze'')"
| "entity_analyze (PrimitiveE p) = Inl (TypeError ''this.varexp.analyze'')"
| "entity_analyze e = Inr ()"

subsection \<open>The rules\<close>

fun analyzeExp :: "ctxt \<Rightarrow> ref \<Rightarrow> unit exp \<Rightarrow> error + (ref \<times> texp)"
and analyzeExps :: "ctxt \<Rightarrow> ref \<Rightarrow> unit exp list \<Rightarrow> error + (ref \<times> texp list)"
where
  "analyzeExp c n (StringLiteral u s) = Inr (n, StringLiteral (Some StringType) s)"
| "analyzeExp c n (NoneLiteral u) = Inr (n, NoneLiteral (Some NoneType))"
| "analyzeExp c n (BooleanLiteral u b) = Inr (n, BooleanLiteral (Some BooleanType) b)"
| "analyzeExp c n (NumericLiteral u v) = Inr (n, NumericLiteral (Some IntType) v)"
| "analyzeExp c n (Argument u e) =
     (case analyzeExp c n e of
        Inl x \<Rightarrow> Inl x
      | Inr (n', e') \<Rightarrow> Inr (n', Argument None e'))"
| "analyzeExp c n (ArrayExpression u es) =
     (case analyzeExps c n es of
        Inl x \<Rightarrow> Inl x
      | Inr (n', es') \<Rightarrow>
        (case ArrayExpression_type n' es' of
           Inl x \<Rightarrow> Inl x
         | Inr (n'', t) \<Rightarrow> Inr (n'', ArrayExpression (Some t) es')))"
| "analyzeExp c n (SetExpression u es) =
     (case analyzeExps c n es of
        Inl x \<Rightarrow> Inl x
      | Inr (n', es') \<Rightarrow>
        (case SetExpression_type n' es' of
           Inl x \<Rightarrow> Inl x
         | Inr (n'', t) \<Rightarrow> Inr (n'', SetExpression (Some t) es')))"
| "analyzeExp c n (DictExpression u es) =
     (case analyzeExps c n es of
        Inl x \<Rightarrow> Inl x
      | Inr (n', es') \<Rightarrow>
        (case DictExpression_type n' es' of
           Inl x \<Rightarrow> Inl x
         | Inr (n'', t) \<Rightarrow> Inr (n'', DictExpression (Some t) es')))"
| "analyzeExp c n (KeyValueExpression u k v) =
     (case analyzeExp c n k of
        Inl x \<Rightarrow> Inl x
      | Inr (n', k') \<Rightarrow>
        (case analyzeExp c n' v of
           Inl x \<Rightarrow> Inl x
         | Inr (n'', v') \<Rightarrow> Inr (n'', KeyValueExpression None k' v')))"
| "analyzeExp c n (TupleExpression u es) =
     (case analyzeExps c n es of
        Inl x \<Rightarrow> Inl x
      | Inr (n', es') \<Rightarrow>
        (case TupleExpression_type n' es' of
           (n'', t) \<Rightarrow> Inr (n'', TupleExpression (Some t) es')))"
| "analyzeExp c n (BinaryExpression u op l r) =
     (case analyzeExp c n l of
        Inl x \<Rightarrow> Inl x
      | Inr (n', l') \<Rightarrow>
        (case analyzeExp c n' r of
           Inl x \<Rightarrow> Inl x
         | Inr (n'', r') \<Rightarrow>
           (case BinaryExpression_type op l' r' of
              Inl x \<Rightarrow> Inl x
            | Inr t \<Rightarrow> Inr (n'', BinaryExpression (Some t) op l' r'))))"
| "analyzeExp c n (UnaryExpression u op operand) =
     (case analyzeExp c n operand of
        Inl x \<Rightarrow> Inl x
      | Inr (n', operand') \<Rightarrow>
        (case UnaryExpression_type op operand' of
           Inl x \<Rightarrow> Inl x
         | Inr t \<Rightarrow> Inr (n', UnaryExpression t op operand')))"
| "analyzeExp c n (IdentifierExpression u i) =
     (case lookupVar c i of
        Inl x \<Rightarrow> Inl x
      | Inr r \<Rightarrow> Inr (n, IdentifierExpression (entity_type r) i))"
| "analyzeExp c n (IdentifierDeclaration u i) =
     (case lookupVar c i of
        Inl x \<Rightarrow> Inl x
      | Inr r \<Rightarrow> Inr (n, IdentifierDeclaration (entity_type r) i))"
| "analyzeExp c n (Call u i args wait) =
     (case lookupVar c i of
        Inl x \<Rightarrow> Inl x
      | Inr callee \<Rightarrow>
        (case isFunctionOrClass callee of
           Inl x \<Rightarrow> Inl x
         | Inr _ \<Rightarrow>
           (case analyzeExps c n args of
              Inl x \<Rightarrow> Inl x
            | Inr (n', args') \<Rightarrow>
              (case legalArguments args' (entity_params callee) of
                 Inl x \<Rightarrow> Inl x
               | Inr _ \<Rightarrow>
                 (case asyncAwait (entity_async callee) wait of
                    Inl x \<Rightarrow> Inl x
                  | Inr _ \<Rightarrow> Inr (n', Call (entity_type callee) i args' wait))))))"
| "analyzeExp c n (SubscriptedExpression u varexp subscript) =
     (case lookup_id c (node_id varexp) of
        Inl x \<Rightarrow> Inl x
      | Inr entity \<Rightarrow>
        (case isNotSubscriptable entity of
           Inl x \<Rightarrow> Inl x
         | Inr _ \<Rightarrow>
           (case isInteger (unanalyzed subscript) of
              Inl x \<Rightarrow> Inl x
            | Inr _ \<Rightarrow>
              (case entity_analyze entity of
                 Inl x \<Rightarrow> Inl x
               | Inr _ \<Rightarrow>
                 (case analyzeExp c n subscript of
                    Inl x \<Rightarrow> Inl x
                  | Inr (n', subscript') \<Rightarrow>
                      Inr (n', SubscriptedExpression None (unanalyzed varexp) subscript'))))))"
| "analyzeExps c n [] = Inr (n, [])"
| "analyzeExps c n (e # es) =
     (case analyzeExp c n e of
        Inl x \<Rightarrow> Inl x
      | Inr (n', e') \<Rightarrow>
        (case analyzeExps c n' es of
           Inl x \<Rightarrow> Inl x
         | Inr (n'', es') \<Rightarrow> Inr (n'', e' # es')))"

section \<open>Statements\<close>

text \<open>
  The declared return type of a function is a type descriptor or the marker
  string \<^verbatim>\<open>"leftOnRead"\<close>. The return rule compares the \<^verbatim>\<open>type\<close>
  property of the return node itself with that marker, so the return node
  carries an optional field of the same kind; the parser does not set it.
  The ids of a variable declaration are \<^verbatim>\<open>IdentifierDeclaration\<close> nodes,
  given by their annotation and their name. In the source an expression node
  may stand directly in a list of statements; \<open>ExpressionStatement\<close> is that
  expression in its place in the list, not a node of its own. A body is a
  \<^verbatim>\<open>Block\<close> node.
\<close>

datatype return_type = LeftOnRead | Declared ty

datatype 'a parameter = Parameter ty string "'a exp option"

datatype 'a stmt =
    ExpressionStatement "'a exp"
  | AssignmentStatement "'a exp list" "'a exp list"
  | BreakStatement
  | ContinueStatement
  | CallStatement "'a exp"
  | ClassDeclaration string "'a parameter list" "'a block"
  | ClassicForLoop ty string "'a exp" "'a exp" string "'a block"
  | SpreadForLoop "'a exp" "'a exp" "'a block"
  | FunctionDeclaration bool return_type string "'a parameter list" "'a block"
  | IfStatement "'a exp list" "'a block list" "'a block option"
  | PrintStatement "'a exp"
  | ReturnStatement "return_type option" "'a exp option"
  | SwitchStatement "'a exp" "'a switch_case list" "'a default_case option"
  | VariableDeclaration bool ty "('a \<times> string) list" "'a exp list"
  | WhileStatement "'a exp" "'a block"
and 'a block = Block "'a stmt list"
and 'a switch_case = Case "'a exp" "'a block"
and 'a default_case = DefaultCase "'a block"

datatype 'a program = Program "'a stmt list"

type_synonym tstmt = "ty option stmt"
type_synonym tblock = "ty option block"
type_synonym tparameter = "ty option parameter"

subsection \<open>Rules that do not recurse into statements\<close>

text \<open>
  \<^verbatim>\<open>Parameter.prototype.analyze\<close>: the default expression, if any, then
  the declaration of the parameter in the given context.
\<close>

fun analyzeParameter :: "ctxt \<Rightarrow> ref \<Rightarrow> unit parameter \<Rightarrow> error + (ctxt \<times> ref \<times> tparameter)" where
  "analyzeParameter c n (Parameter t i None) =
     (case addVar c i (ParameterE t i) of
        Inl x \<Rightarrow> Inl x
      | Inr c' \<Rightarrow> Inr (c', n, Parameter t i None))"
| "analyzeParameter c n (Parameter t i (Some e)) =
     (case analyzeExp c n e of
        Inl x \<Rightarrow> Inl x
      | Inr (n', e') \<Rightarrow>
        (case addVar c i (ParameterE t i) of
           Inl x \<Rightarrow> Inl x
         | Inr c' \<Rightarrow> Inr (c', n', Parameter t i (Some e'))))"

fun analyzeParameters :: "ctxt \<Rightarrow> ref \<Rightarrow> unit parameter list \<Rightarrow> error + (ctxt \<times> ref \<times> tparameter list)" where
  "analyzeParameters c n [] = Inr (c, n, [])"
| "analyzeParameters c n (p # ps) =
     (case analyzeParameter c n p of
        Inl x \<Rightarrow> Inl x
      | Inr (c', n', p') \<Rightarrow>
        (case analyzeParameters c' n' ps of
           Inl x \<Rightarrow> Inl x
         | Inr (c'', n'', ps') \<Rightarrow> Inr (c'', n'', p' # ps')))"

fun parameter_type :: "'a parameter \<Rightarrow> ty" where
  "parameter_type (Parameter t i d) = t"

text \<open>
  \<^verbatim>\<open>AssignmentStatement.prototype.analyze\<close>: sources, then targets, then
  the count, then for every target the two checks. It is also what the
  variable declaration runs on the assignment it builds.
\<close>

fun assignment_checks :: "ctxt \<Rightarrow> (texp \<times> texp) list \<Rightarrow> error + unit" where
  "assignment_checks c [] = Inr ()"
| "assignment_checks c ((t, s) # rest) =
     (case isAssignableTo (Some s) (etype t) of
        Inl x \<Rightarrow> Inl x
      | Inr _ \<Rightarrow>
        (case isNotConstant c t of
           Inl x \<Rightarrow> Inl x
         | Inr _ \<Rightarrow> assignment_checks c rest))"

definition AssignmentStatement_analyze ::
  "ctxt \<Rightarrow> ref \<Rightarrow> unit exp list \<Rightarrow> unit exp list \<Rightarrow> error + (ref \<times> texp list \<times> texp list)" where
  "AssignmentStatement_analyze c n target source =
     (case analyzeExps c n source of
        Inl x \<Rightarrow> Inl x
      | Inr (n', source') \<Rightarrow>
        (case analyzeExps c n' target of
           Inl x \<Rightarrow> Inl x
         | Inr (n'', target') \<Rightarrow>
           (if length target \<noteq> length source
            then Inl (Error ''Number of ids does not equal number of exps'')
            else (case assignment_checks c (zip target' source') of
                    Inl x \<Rightarrow> Inl x
                  | Inr _ \<Rightarrow> Inr (n'', target', source')))))"

text \<open>
  \<^verbatim>\<open>VariableDeclaration.prototype.analyze\<close>: the count, one
  \<^verbatim>\<open>Variable\<close> per id declared in the context, then the assignment of
  the expressions to the ids.
\<close>

fun addVars :: "ctxt \<Rightarrow> (string \<times> entity) list \<Rightarrow> error + ctxt" where
  "addVars c [] = Inr c"
| "addVars c ((i, e) # rest) =
     (case addVar c i e of Inl x \<Rightarrow> Inl x | Inr c' \<Rightarrow> addVars c' rest)"

definition VariableDeclaration_analyze ::
  "ctxt \<Rightarrow> ref \<Rightarrow> bool \<Rightarrow> ty \<Rightarrow> (unit \<times> string) list \<Rightarrow> unit exp list \<Rightarrow> error + (ctxt \<times> ref \<times> tstmt)" where
  "VariableDeclaration_analyze c n constant t ids expressions =
     (case sameNumberOfInitializersAsVariables expressions ids of
        Inl x \<Rightarrow> Inl x
      | Inr _ \<Rightarrow>
        (case addVars c (map (\<lambda>(u, i). (i, VariableE constant t i)) ids) of
           Inl x \<Rightarrow> Inl x
         | Inr c' \<Rightarrow>
           (case AssignmentStatement_analyze c' n (map (\<lambda>(u, i). IdentifierDeclaration u i) ids) expressions of
              Inl x \<Rightarrow> Inl x
            | Inr (n', target', source') \<Rightarrow>
                Inr (c', n', VariableDeclaration constant t (zip (map etype target') (map snd ids)) source'))))"

text \<open>
  The tests of an if statement: each is analyzed and at once checked to be
  Boolean, before the next one is analyzed.
\<close>

fun analyzeTests :: "ctxt \<Rightarrow> ref \<Rightarrow> unit exp list \<Rightarrow> error + (ref \<times> texp list)" where
  "analyzeTests c n [] = Inr (n, [])"
| "analyzeTests c n (e # es) =
     (case analyzeExp c n e of
        Inl x \<Rightarrow> Inl x
      | Inr (n', e') \<Rightarrow>
        (case isBoolean e' of
           Inl x \<Rightarrow> Inl x
         | Inr _ \<Rightarrow>
           (case analyzeTests c n' es of
              Inl x \<Rightarrow> Inl x
            | Inr (n'', es') \<Rightarrow> Inr (n'', e' # es'))))"

text \<open>
  \<^verbatim>\<open>this.type === "leftOnRead" ? NoneType : this.type\<close> in the function
  declaration rule. The entity stored in the scope is the declaration object
  itself, so the scope sees the normalized type. Nothing reads the type
  between the declaration of the function and the normalization on the next
  line, so the embedding builds the entity with the normalized type.
\<close>

fun normalized :: "return_type \<Rightarrow> ty" where
  "normalized LeftOnRead = NoneType"
| "normalized (Declared t) = t"

text \<open>The body context of a function, its parent being the context as it is after \<^verbatim>\<open>context.addVar(this.id, this)\<close>.\<close>

definition with_parent :: "ctxt \<Rightarrow> ctxt \<Rightarrow> ctxt" where
  "with_parent child p =
     Context (Some p) (currentFunction child) (inLoop child)
       (variableDeclarations child) (classDeclarations child)"

text \<open>\<^verbatim>\<open>context.currentFunction.type\<close> in the return rule.\<close>

definition currentFunction_type :: "ctxt \<Rightarrow> ty option" where
  "currentFunction_type c = (case currentFunction c of None \<Rightarrow> None | Some f \<Rightarrow> entity_type f)"

text \<open>A default case that no rule has visited.\<close>

definition unanalyzed_default :: "unit default_case \<Rightarrow> ty option default_case" where
  "unanalyzed_default d = map_default_case (\<lambda>u. None) d"

subsection \<open>The rules for statements\<close>

text \<open>
  A rule returns the context it was given as the rule leaves it, the next
  free reference and the annotated statement. Child contexts are dropped
  when the rule that made them is done. The keyword handed to
  \<^verbatim>\<open>check.inLoop\<close> only serves its message (the source's keyword for
  break ends in a character outside ASCII, left out here).
\<close>

fun analyzeStmt :: "ctxt \<Rightarrow> ref \<Rightarrow> unit stmt \<Rightarrow> error + (ctxt \<times> ref \<times> tstmt)"
and analyzeStmts :: "ctxt \<Rightarrow> ref \<Rightarrow> unit stmt list \<Rightarrow> error + (ctxt \<times> ref \<times> tstmt list)"
and analyzeBlock :: "ctxt \<Rightarrow> ref \<Rightarrow> unit block \<Rightarrow> error + (ctxt \<times> ref \<times> tblock)"
and analyzeCases :: "ctxt \<Rightarrow> ref \<Rightarrow> unit switch_case list \<Rightarrow> error + (ctxt \<times> ref \<times> ty option switch_case list)"
and analyzeConsequents :: "ctxt \<Rightarrow> ref \<Rightarrow> unit block list \<Rightarrow> error + (ref \<times> tblock list)"
where
  "analyzeStmt c n (ExpressionStatement e) =
     (case analyzeExp c n e of
        Inl x \<Rightarrow> Inl x
      | Inr (n', e') \<Rightarrow> Inr (c, n', ExpressionStatement e'))"
| "analyzeStmt c n (AssignmentStatement target source) =
     (case AssignmentStatement_analyze c n target source of
        Inl x \<Rightarrow> Inl x
      | Inr (n', target', source') \<Rightarrow> Inr (c, n', AssignmentStatement target' source'))"
| "analyzeStmt c n BreakStatement =
     (case check_inLoop c ''GTFO'' of
        Inl x \<Rightarrow> Inl x
      | Inr _ \<Rightarrow>
        (if \<not> inLoop c then Inl (Error ''Break outside of loop'')
         else Inr (c, n, BreakStatement)))"
| "analyzeStmt c n ContinueStatement =
     (case check_inLoop c ''keepItPushin'' of
        Inl x \<Rightarrow> Inl x
      | Inr _ \<Rightarrow> Inr (c, n, ContinueStatement))"
| "analyzeStmt c n (CallStatement call) =
     (case analyzeExp c n call of
        Inl x \<Rightarrow> Inl x
      | Inr (n', call') \<Rightarrow> Inr (c, n', CallStatement call'))"
| "analyzeStmt c n (ClassDeclaration i params body) =
     (case addClass c i (ClassE i) of
        Inl x \<Rightarrow> Inl x
      | Inr c1 \<Rightarrow>
        (case analyzeParameters (createChildContextForFunctionBody c1 None) n params of
           Inl x \<Rightarrow> Inl x
         | Inr (bodyContext, n1, params') \<Rightarrow>
           (case analyzeBlock c1 n1 body of
              Inl x \<Rightarrow> Inl x
            | Inr (c2, n2, body') \<Rightarrow> Inr (c2, n2, ClassDeclaration i params' body'))))"
| "analyzeStmt c n (ClassicForLoop t initId initexpression testExpression updateid body) =
     (case analyzeExp (createChildContextForLoop c) n initexpression of
        Inl x \<Rightarrow> Inl x
      | Inr (n1, initexpression') \<Rightarrow>
        (case isAssignableTo (Some initexpression') (Some t) of
           Inl x \<Rightarrow> Inl x
         | Inr _ \<Rightarrow>
           (case addVar (createChildContextForLoop c) initId (IndexE (etype initexpression') initId) of
              Inl x \<Rightarrow> Inl x
            | Inr bodyContext \<Rightarrow>
              (case analyzeExp bodyContext n1 testExpression of
                 Inl x \<Rightarrow> Inl x
               | Inr (n2, testExpression') \<Rightarrow>
                 (case isBoolean testExpression' of
                    Inl x \<Rightarrow> Inl x
                  | Inr _ \<Rightarrow>
                    (case lookupVar bodyContext updateid of
                       Inl x \<Rightarrow> Inl x
                     | Inr variableToIncrement \<Rightarrow>
                       (case isIntegerOrLong (entity_type variableToIncrement) of
                          Inl x \<Rightarrow> Inl x
                        | Inr _ \<Rightarrow>
                          (case analyzeBlock bodyContext n2 body of
                             Inl x \<Rightarrow> Inl x
                           | Inr (bodyContext', n3, body') \<Rightarrow>
                               Inr (c, n3, ClassicForLoop t initId initexpression' testExpression'
                                             updateid body')))))))))"
| "analyzeStmt c n (SpreadForLoop lo hi body) =
     (case analyzeExp c n lo of
        Inl x \<Rightarrow> Inl x
      | Inr (n1, lo') \<Rightarrow>
        (case isIntegerOrLong (etype lo') of
           Inl x \<Rightarrow> Inl x
         | Inr _ \<Rightarrow>
           (case analyzeExp c n1 hi of
              Inl x \<Rightarrow> Inl x
            | Inr (n2, hi') \<Rightarrow>
              (case isIntegerOrLong (etype hi') of
                 Inl x \<Rightarrow> Inl x
               | Inr _ \<Rightarrow>
                 (case analyzeBlock (createChildContextForLoop c) n2 body of
                    Inl x \<Rightarrow> Inl x
                  | Inr (bodyContext', n3, body') \<Rightarrow> Inr (c, n3, SpreadForLoop lo' hi' body'))))))"
| "analyzeStmt c n (FunctionDeclaration async t i params body) =
     (case analyzeParameters
             (createChildContextForFunctionBody c
                (Some (FunctionE async (normalized t) i (map parameter_type params))))
             n params of
        Inl x \<Rightarrow> Inl x
      | Inr (bodyContext, n1, params') \<Rightarrow>
        (case addVar c i (FunctionE async (normalized t) i (map parameter_type params)) of
           Inl x \<Rightarrow> Inl x
         | Inr c1 \<Rightarrow>
           (case analyzeBlock (with_parent bodyContext c1) n1 body of
              Inl x \<Rightarrow> Inl x
            | Inr (bodyContext', n2, body') \<Rightarrow>
                Inr (c1, n2, FunctionDeclaration async (Declared (normalized t)) i params' body'))))"
| "analyzeStmt c n (IfStatement tests consequents alternate) =
     (case analyzeTests c n tests of
        Inl x \<Rightarrow> Inl x
      | Inr (n1, tests') \<Rightarrow>
        (case analyzeConsequents c n1 consequents of
           Inl x \<Rightarrow> Inl x
         | Inr (n2, consequents') \<Rightarrow>
           (case alternate of
              None \<Rightarrow> Inr (c, n2, IfStatement tests' consequents' None)
            | Some a \<Rightarrow>
              (case analyzeBlock (createChildContextForBlock c) n2 a of
                 Inl x \<Rightarrow> Inl x
               | Inr (alternateBlock', n3, a') \<Rightarrow>
                   Inr (c, n3, IfStatement tests' consequents' (Some a'))))))"
| "analyzeStmt c n (PrintStatement e) = Inr (c, n, PrintStatement (unanalyzed e))"
| "analyzeStmt c n (ReturnStatement t None) =
     Inl (TypeError ''this.expression.analyze'')"
| "analyzeStmt c n (ReturnStatement t (Some e)) =
     (case analyzeExp c n e of
        Inl x \<Rightarrow> Inl x
      | Inr (n', e') \<Rightarrow>
        (if t = Some LeftOnRead then Inl (Error ''Void functions cannot have return statements'')
         else
           (case inFunction c of
              Inl x \<Rightarrow> Inl x
            | Inr _ \<Rightarrow>
              (case isAssignableTo (Some e') (currentFunction_type c) of
                 Inl x \<Rightarrow> Inl x
               | Inr _ \<Rightarrow> Inr (c, n', ReturnStatement t (Some e'))))))"
| "analyzeStmt c n (SwitchStatement e cases alternate) =
     (case analyzeExp c n e of
        Inl x \<Rightarrow> Inl x
      | Inr (n1, e') \<Rightarrow>
        (case analyzeCases c n1 cases of
           Inl x \<Rightarrow> Inl x
         | Inr (c1, n2, cases') \<Rightarrow>
             Inr (c1, n2, SwitchStatement e' cases' (map_option unanalyzed_default alternate))))"
| "analyzeStmt c n (VariableDeclaration constant t ids expressions) =
     VariableDeclaration_analyze c n constant t ids expressions"
| "analyzeStmt c n (WhileStatement e body) =
     (case analyzeExp c n e of
        Inl x \<Rightarrow> Inl x
      | Inr (n1, e') \<Rightarrow>
        (case isBoolean e' of
           Inl x \<Rightarrow> Inl x
         | Inr _ \<Rightarrow>
           (case analyzeBlock (createChildContextForLoop c) n1 body of
              Inl x \<Rightarrow> Inl x
            | Inr (bodyContext', n2, body') \<Rightarrow> Inr (c, n2, WhileStatement e' body'))))"
| "analyzeStmts c n [] = Inr (c, n, [])"
| "analyzeStmts c n (s # ss) =
     (case analyzeStmt c n s of
        Inl x \<Rightarrow> Inl x
      | Inr (c1, n1, s') \<Rightarrow>
        (case analyzeStmts c1 n1 ss of
           Inl x \<Rightarrow> Inl x
         | Inr (c2, n2, ss') \<Rightarrow> Inr (c2, n2, s' # ss')))"
| "analyzeBlock c n (Block statements) =
     (case analyzeStmts c n statements of
        Inl x \<Rightarrow> Inl x
      | Inr (c1, n1, statements') \<Rightarrow> Inr (c1, n1, Block statements'))"
| "analyzeCases c n [] = Inr (c, n, [])"
| "analyzeCases c n (Case e body # cs) =
     (case analyzeExp c n e of
        Inl x \<Rightarrow> Inl x
      | Inr (n1, e') \<Rightarrow>
        (case isBoolean e' of
           Inl x \<Rightarrow> Inl x
         | Inr _ \<Rightarrow>
           (case analyzeBlock c n1 body of
              Inl x \<Rightarrow> Inl x
            | Inr (c1, n2, body') \<Rightarrow>
              (case analyzeCases c1 n2 cs of
                 Inl x \<Rightarrow> Inl x
               | Inr (c2, n3, cs') \<Rightarrow> Inr (c2, n3, Case e' body' # cs')))))"
| "analyzeConsequents c n [] = Inr (n, [])"
| "analyzeConsequents c n (b # bs) =
     (case analyzeBlock (createChildContextForBlock c) n b of
        Inl x \<Rightarrow> Inl x
      | Inr (blockContext', n1, b') \<Rightarrow>
        (case analyzeConsequents c n1 bs of
           Inl x \<Rightarrow> Inl x
         | Inr (n2, bs') \<Rightarrow> Inr (n2, b' # bs')))"

text \<open>
  \<^verbatim>\<open>Program.prototype.analyze\<close>, and the module's export, which analyzes
  a program in \<^verbatim>\<open>Context.INITIAL\<close>.
\<close>

fun analyzeProgram :: "ctxt \<Rightarrow> ref \<Rightarrow> unit program \<Rightarrow> error + (ctxt \<times> ref \<times> ty option program)" where
  "analyzeProgram c n (Program statements) =
     (case analyzeStmts c n statements of
        Inl x \<Rightarrow> Inl x
      | Inr (c1, n1, statements') \<Rightarrow> Inr (c1, n1, Program statements'))"

definition analyze ::
  "standard_function list \<Rightarrow> primitive list \<Rightarrow> ref \<Rightarrow> unit program \<Rightarrow> error + (ctxt \<times> ref \<times> ty option program)" where
  "analyze standardFunctions primitives n program =
     analyzeProgram (INITIAL standardFunctions primitives) n program"

text \<open>The \<^verbatim>\<open>expression\<close> of a switch case, its guard.\<close>

fun guard :: "'a switch_case \<Rightarrow> 'a exp" where
  "guard (Case e body) = e"

section \<open>Properties of scopes\<close>

subsection \<open>Map objects and the tables of a context\<close>

lemma map_of_update_entry: "map_of (update_entry k v xs) = (map_of xs)(k \<mapsto> v)"
  by (induction xs) (auto simp: fun_eq_iff)

lemma map_has_map_set: "map_has (map_set k v m) k' = (k' = k \<or> map_has m k')"
  by (simp add: map_has_def map_set_def map_of_update_entry)

lemma map_get_map_set: "map_get (map_set k v m) k' = (if k' = k then Some v else map_get m k')"
  by (simp add: map_get_def map_set_def map_of_update_entry)

lemma map_has_new_Map: "map_has new_Map k = False"
  by (simp add: map_has_def new_Map_def)

lemma map_get_new_Map: "map_get new_Map k = None"
  by (simp add: map_get_def new_Map_def)

lemma map_get_prop_set: "map_get (prop_set k v m) k' = map_get m k'"
  by (simp add: map_get_def prop_set_def)

lemma addVar_declares:
  "addVar c x e = Inr c' \<Longrightarrow> map_has (variableDeclarations c') x \<and> lookupVar c' x = Inr e"
  by (auto simp: addVar_def map_has_map_set map_get_map_set split: if_splits)

lemma addClass_declares:
  "addClass c x e = Inr c' \<Longrightarrow> map_has (classDeclarations c') x \<and> lookupClass c' x = Inr e"
  by (auto simp: addClass_def map_has_map_set map_get_map_set split: if_splits)

lemma addVar_new_Context: "\<exists>c'. addVar (new_Context p f l) x e = Inr c' \<and> lookupVar c' x = Inr e"
  by (simp add: addVar_def new_Context_def map_has_new_Map map_get_map_set)

lemma addClass_new_Context: "\<exists>c'. addClass (new_Context p f l) x e = Inr c' \<and> lookupClass c' x = Inr e"
  by (simp add: addClass_def new_Context_def map_has_new_Map map_get_map_set)

subsection \<open>The initial context\<close>

lemma seed_function_fields:
  "parent (seed_function f c) = parent c"
  "map_get (variableDeclarations (seed_function f c)) k = map_get (variableDeclarations c) k"
  "classDeclarations (seed_function f c) = classDeclarations c"
  by (simp_all add: seed_function_def map_get_prop_set)

lemma fold_seed_function_fields:
  "parent (fold seed_function fs c) = parent c"
  "map_get (variableDeclarations (fold seed_function fs c)) k = map_get (variableDeclarations c) k"
  "classDeclarations (fold seed_function fs c) = classDeclarations c"
  by (induction fs arbitrary: c) (simp_all add: seed_function_fields)

lemma seed_type_fields:
  "parent (seed_type t c) = parent c"
  "variableDeclarations (seed_type t c) = variableDeclarations c"
  by (simp_all add: seed_type_def)

lemma fold_seed_type_fields:
  "parent (fold seed_type ts c) = parent c"
  "variableDeclarations (fold seed_type ts c) = variableDeclarations c"
  by (induction ts arbitrary: c) (simp_all add: seed_type_fields)

lemma fold_seed_type_has:
  "map_has (classDeclarations c) k \<or> k \<in> name ` set ts \<Longrightarrow>
   map_has (classDeclarations (fold seed_type ts c)) k"
proof (induction ts arbitrary: c)
  case Nil
  then show ?case by simp
next
  case (Cons t ts)
  have "map_has (classDeclarations (seed_type t c)) k \<or> k \<in> name ` set ts"
    using Cons.prems by (auto simp: seed_type_def map_has_map_set)
  then show ?case using Cons.IH by simp
qed

lemma lookupVar_root:
  "parent c = None \<Longrightarrow> map_get (variableDeclarations c) i = None \<Longrightarrow>
   lookupVar c i = Inl (not_declared i)"
  by (cases c) simp

lemma lookupClass_has:
  "map_has (classDeclarations c) i \<Longrightarrow> \<exists>e. lookupClass c i = Inr e"
  by (cases c) (auto simp: map_get_def map_has_def split: option.splits)

lemma INITIAL_parent: "parent (INITIAL fs ps) = None"
  by (simp add: INITIAL_def fold_seed_type_fields fold_seed_function_fields new_Context_def)

lemma INITIAL_variables: "map_get (variableDeclarations (INITIAL fs ps)) i = None"
  by (simp add: INITIAL_def fold_seed_type_fields fold_seed_function_fields new_Context_def
        map_get_new_Map)

text \<open>
  Every lookup of a variable in the initial context fails: the variable table
  of the root has no entry, whatever the standard functions are.
\<close>

lemma lookupVar_INITIAL: "lookupVar (INITIAL fs ps) i = Inl (not_declared i)"
  by (simp add: lookupVar_root INITIAL_parent INITIAL_variables)

text \<open>The primitive type names, stored with \<^verbatim>\<open>set\<close>, are found.\<close>

lemma lookupClass_INITIAL:
  "p \<in> set ps \<Longrightarrow> \<exists>e. lookupClass (INITIAL fs ps) (name p) = Inr e"
  by (rule lookupClass_has) (simp add: INITIAL_def fold_seed_type_has)

text \<open>
  C3 (the code departs from the claim). The claim says that after the
  initialization of the root scope the lookup of a variable succeeds for every
  standard library function name. In the code the lookup of the name of a
  standard function in \<^verbatim>\<open>Context.INITIAL\<close> throws "Identifier ... has not
  been declared", for every list of standard functions and every function
  \<open>f\<close>, those of the list included: the functions were stored as properties
  of the Map object, and \<^verbatim>\<open>has\<close> reads its entries. (The second half of
  the claim, on the primitive type names, holds: \<open>lookupClass_INITIAL\<close>.)
\<close>

theorem standard_functions_not_found:
  "lookupVar (INITIAL standardFunctions primitives) (fid f) =
     Inl (Error (''Identifier '' @ fid f @ '' has not been declared''))"
  using lookupVar_INITIAL [of standardFunctions primitives "fid f"]
  by (simp add: not_declared_def)

subsection \<open>Declaring twice, and shadowing\<close>

text \<open>
  C5. Declaring a variable (or a class) whose name is already in the table of
  that same context fails with the duplicate-declaration error; in particular
  a second declaration in the context that a first declaration produced
  fails. Declaring the name in a freshly created child context (block, loop
  or function body) succeeds, whatever the enclosing contexts hold, and from
  the child the name then resolves to the inner declaration.
\<close>

theorem redeclaration_fails_shadowing_succeeds:
  "(map_has (variableDeclarations c) x \<longrightarrow>
      addVar c x e = Inl (Error ''Identifier already declared in this scope''))
   \<and> (map_has (classDeclarations c) x \<longrightarrow>
      addClass c x k = Inl (Error ''Class identifier already declared in this scope''))
   \<and> (addVar c0 x e0 = Inr c \<longrightarrow>
      addVar c x e = Inl (Error ''Identifier already declared in this scope''))
   \<and> (addClass c1 x k1 = Inr c \<longrightarrow>
      addClass c x k = Inl (Error ''Class identifier already declared in this scope''))
   \<and> (\<exists>c'. addVar (createChildContextForBlock c) x e = Inr c' \<and> lookupVar c' x = Inr e)
   \<and> (\<exists>c'. addVar (createChildContextForLoop c) x e = Inr c' \<and> lookupVar c' x = Inr e)
   \<and> (\<exists>c'. addVar (createChildContextForFunctionBody c f) x e = Inr c' \<and> lookupVar c' x = Inr e)
   \<and> (\<exists>c'. addClass (createChildContextForBlock c) x k = Inr c' \<and> lookupClass c' x = Inr k)
   \<and> (\<exists>c'. addClass (createChildContextForLoop c) x k = Inr c' \<and> lookupClass c' x = Inr k)
   \<and> (\<exists>c'. addClass (createChildContextForFunctionBody c f) x k = Inr c' \<and> lookupClass c' x = Inr k)"
proof -
  have v: "map_has (variableDeclarations c) x \<longrightarrow>
      addVar c x e = Inl (Error ''Identifier already declared in this scope'')"
    by (simp add: addVar_def)
  have k: "map_has (classDeclarations c) x \<longrightarrow>
      addClass c x k = Inl (Error ''Class identifier already declared in this scope'')"
    by (simp add: addClass_def)
  have v2: "addVar c0 x e0 = Inr c \<longrightarrow>
      addVar c x e = Inl (Error ''Identifier already declared in this scope'')"
    using addVar_declares [of c0 x e0 c] by (simp add: addVar_def)
  have k2: "addClass c1 x k1 = Inr c \<longrightarrow>
      addClass c x k = Inl (Error ''Class identifier already declared in this scope'')"
    using addClass_declares [of c1 x k1 c] by (simp add: addClass_def)
  show ?thesis
    using v k v2 k2
    by (simp only: createChildContextForBlock_def createChildContextForLoop_def
          createChildContextForFunctionBody_def addVar_new_Context addClass_new_Context simp_thms)
qed

text \<open>
  The theorem at a context that holds \<open>x\<close> both as a variable and as a
  class: it came from a context without the variable by \<open>addVar\<close>, and from
  one without the class by \<open>addClass\<close>; both redeclarations fail, and the
  declarations in a child block succeed.
\<close>

theorem redeclaration_fails_shadowing_succeeds_witness:
  "map_has (variableDeclarations
      (Context None None False (JsMap [(''x'', VariableE False IntType ''x'')] [])
         (JsMap [(''x'', ClassE ''x'')] []))) ''x''
   \<and> map_has (classDeclarations
      (Context None None False (JsMap [(''x'', VariableE False IntType ''x'')] [])
         (JsMap [(''x'', ClassE ''x'')] []))) ''x''
   \<and> addVar (Context None None False (JsMap [] []) (JsMap [(''x'', ClassE ''x'')] []))
        ''x'' (VariableE False IntType ''x'') =
      Inr (Context None None False (JsMap [(''x'', VariableE False IntType ''x'')] [])
         (JsMap [(''x'', ClassE ''x'')] []))
   \<and> addClass (Context None None False (JsMap [(''x'', VariableE False IntType ''x'')] []) (JsMap [] []))
        ''x'' (ClassE ''x'') =
      Inr (Context None None False (JsMap [(''x'', VariableE False IntType ''x'')] [])
         (JsMap [(''x'', ClassE ''x'')] []))
   \<and> addVar (Context None None False (JsMap [(''x'', VariableE False IntType ''x'')] [])
         (JsMap [(''x'', ClassE ''x'')] [])) ''x'' (VariableE False StringType ''x'') =
      Inl (Error ''Identifier already declared in this scope'')
   \<and> addClass (Context None None False (JsMap [(''x'', VariableE False IntType ''x'')] [])
         (JsMap [(''x'', ClassE ''x'')] [])) ''x'' (ClassE ''x'') =
      Inl (Error ''Class identifier already declared in this scope'')
   \<and> (\<exists>c'. addVar (createChildContextForBlock
                 (Context None None False (JsMap [(''x'', VariableE False IntType ''x'')] [])
                    (JsMap [(''x'', ClassE ''x'')] [])))
               ''x'' (VariableE False StringType ''x'') = Inr c'
            \<and> lookupVar c' ''x'' = Inr (VariableE False StringType ''x''))
   \<and> (\<exists>c'. addClass (createChildContextForBlock
                 (Context None None False (JsMap [(''x'', VariableE False IntType ''x'')] [])
                    (JsMap [(''x'', ClassE ''x'')] [])))
               ''x'' (ClassE ''x'') = Inr c'
            \<and> lookupClass c' ''x'' = Inr (ClassE ''x''))"
  using redeclaration_fails_shadowing_succeeds
          [of "Context None None False (JsMap [(''x'', VariableE False IntType ''x'')] [])
                 (JsMap [(''x'', ClassE ''x'')] [])"
              "''x''" "VariableE False StringType ''x''" "ClassE ''x''"
              "Context None None False (JsMap [] []) (JsMap [(''x'', ClassE ''x'')] [])"
              "VariableE False IntType ''x''"
              "Context None None False (JsMap [(''x'', VariableE False IntType ''x'')] []) (JsMap [] [])"
              "ClassE ''x''"
              None]
  by (simp add: map_has_def addVar_def addClass_def map_set_def)

section \<open>Properties of the analysis\<close>

subsection \<open>Subscripts\<close>

lemma etype_unanalyzed: "etype (unanalyzed e) = None"
  by (cases e) (simp_all add: unanalyzed_def)

lemma isInteger_unanalyzed: "isInteger (unanalyzed e) = Inl (CheckError ''isInteger'')"
  by (simp add: isInteger_def doCheck_def etype_unanalyzed)

lemma lookupVar_error: "lookupVar c i = Inl x \<Longrightarrow> x = not_declared i"
  by (induction c i rule: lookupVar.induct) (auto split: option.splits)

text \<open>
  The subscript rule checks the type of the subscript before it analyzes the
  subscript. On a tree from the parser the subscript has no type at that
  point, so the rule rejects every subscripted expression: with the error of
  the lookup of the base, or of one of the two checks.
\<close>

lemma SubscriptedExpression_rejected:
  "analyzeExp c n (SubscriptedExpression u v s) = Inl (CheckError ''isInteger'')
   \<or> analyzeExp c n (SubscriptedExpression u v s) = Inl (CheckError ''isNotSubscriptable'')
   \<or> (\<exists>i. analyzeExp c n (SubscriptedExpression u v s) = Inl (not_declared i))"
  by (auto simp: isInteger_unanalyzed isNotSubscriptable_def doCheck_def lookup_id_def
        split: sum.splits option.splits dest: lookupVar_error)


subsection \<open>Return without an expression\<close>

text \<open>
  C10. The return rule starts by calling \<^verbatim>\<open>analyze\<close> on the expression of
  the statement. For a return node without an expression that call is a
  runtime error, in every context; so the analysis of a function declared with
  the void marker whose body starts with a bare return does not complete, nor
  does that of a program that starts with one.
\<close>

theorem bare_return_rejected:
  "analyzeStmt c n (ReturnStatement t None) = Inl (TypeError ''this.expression.analyze'')
   \<and> isl (analyzeStmt c n
            (FunctionDeclaration async LeftOnRead i params (Block (ReturnStatement t None # rest))))
   \<and> isl (analyzeProgram c n (Program (ReturnStatement t None # rest)))"
  by (simp split: sum.splits)

subsection \<open>Break and continue\<close>

lemma analyzeParameter_frame:
  "analyzeParameter c n p = Inr (c', n', p') \<Longrightarrow>
   inLoop c' = inLoop c \<and> currentFunction c' = currentFunction c \<and> parent c' = parent c"
  by (cases "(c, n, p)" rule: analyzeParameter.cases)
     (auto simp: addVar_def split: sum.splits if_splits)

lemma analyzeParameters_frame:
  "analyzeParameters c n ps = Inr (c', n', ps') \<Longrightarrow>
   inLoop c' = inLoop c \<and> currentFunction c' = currentFunction c \<and> parent c' = parent c"
proof (induction ps arbitrary: c n c' n' ps')
  case Nil
  then show ?case by simp
next
  case (Cons p ps)
  then show ?case
    by (auto split: sum.splits dest!: analyzeParameter_frame)
qed

lemma break_iff: "(\<exists>r. analyzeStmt c n BreakStatement = Inr r) = inLoop c"
  by (simp add: check_inLoop_def doCheck_def)

lemma continue_iff: "(\<exists>r. analyzeStmt c n ContinueStatement = Inr r) = inLoop c"
  by (simp add: check_inLoop_def doCheck_def)

lemma function_body_break:
  "isl (analyzeStmt c n (FunctionDeclaration a t i ps (Block [BreakStatement])))"
  by (auto simp: check_inLoop_def doCheck_def with_parent_def createChildContextForFunctionBody_def
        new_Context_def split: sum.splits dest!: analyzeParameters_frame)

lemma function_body_continue:
  "isl (analyzeStmt c n (FunctionDeclaration a t i ps (Block [ContinueStatement])))"
  by (auto simp: check_inLoop_def doCheck_def with_parent_def createChildContextForFunctionBody_def
        new_Context_def split: sum.splits dest!: analyzeParameters_frame)

lemma Block_single_rejected:
  "isl (analyzeStmt c n s) \<Longrightarrow> isl (analyzeBlock c n (Block [s]))"
  by (auto split: sum.splits)

lemma While_body_rejected:
  assumes "\<And>c' n'. isl (analyzeBlock c' n' body)"
  shows "isl (analyzeStmt c n (WhileStatement e body))"
proof -
  have "analyzeBlock c' n' body \<noteq> Inr r" for c' n' r
    using assms [of c' n'] by auto
  then show ?thesis by (auto split: sum.splits)
qed

text \<open>
  C6. The analysis of a break, and of a continue, succeeds if and only if the
  context it runs in has its loop flag set. The flag is set in a loop body
  context, a block context inherits it, and a function body context has it
  reset. So a break or continue that is the body of a function declaration is
  rejected wherever the declaration stands, also when it stands in the body
  of a while loop; a break directly in the body of a while loop, and a
  break or continue in the branches of an if statement in that body, are
  accepted.
\<close>

theorem break_continue_need_loop:
  "((\<exists>r. analyzeStmt c n BreakStatement = Inr r) = inLoop c)
   \<and> ((\<exists>r. analyzeStmt c n ContinueStatement = Inr r) = inLoop c)
   \<and> inLoop (createChildContextForLoop c)
   \<and> inLoop (createChildContextForBlock c) = inLoop c
   \<and> \<not> inLoop (createChildContextForFunctionBody c f)
   \<and> isl (analyzeStmt c n (FunctionDeclaration a t i ps (Block [BreakStatement])))
   \<and> isl (analyzeStmt c n (FunctionDeclaration a t i ps (Block [ContinueStatement])))
   \<and> isl (analyzeStmt c n (WhileStatement e (Block [FunctionDeclaration a t i ps (Block [BreakStatement])])))
   \<and> (\<exists>r. analyzeStmt c n (WhileStatement (BooleanLiteral () b) (Block [BreakStatement])) = Inr r)
   \<and> (\<exists>r. analyzeStmt c n (WhileStatement (BooleanLiteral () b)
              (Block [IfStatement [BooleanLiteral () b'] [Block [ContinueStatement]]
                        (Some (Block [BreakStatement]))])) = Inr r)"
proof -
  have w: "isl (analyzeStmt c n (WhileStatement e (Block [FunctionDeclaration a t i ps (Block [BreakStatement])])))"
    by (rule While_body_rejected, rule Block_single_rejected, rule function_body_break)
  have l: "\<exists>r. analyzeStmt c n (WhileStatement (BooleanLiteral () b) (Block [BreakStatement])) = Inr r"
    by (simp add: isBoolean_def check_inLoop_def doCheck_def createChildContextForLoop_def new_Context_def)
  have i: "\<exists>r. analyzeStmt c n (WhileStatement (BooleanLiteral () b)
              (Block [IfStatement [BooleanLiteral () b'] [Block [ContinueStatement]]
                        (Some (Block [BreakStatement]))])) = Inr r"
    by (simp add: isBoolean_def check_inLoop_def doCheck_def createChildContextForLoop_def
          createChildContextForBlock_def new_Context_def)
  have k: "inLoop (createChildContextForLoop c)"
    "inLoop (createChildContextForBlock c) = inLoop c"
    "\<not> inLoop (createChildContextForFunctionBody c f)"
    by (simp_all add: createChildContextForLoop_def createChildContextForBlock_def
          createChildContextForFunctionBody_def new_Context_def)
  show ?thesis
    by (intro conjI break_iff continue_iff k w l i function_body_break function_body_continue)
qed

text \<open>
  The theorem at the root context (no loop: break is rejected) and at a loop
  body context made from it (break and continue are accepted, and rejected
  again in a function body context made inside the loop).
\<close>

theorem break_continue_need_loop_witness:
  "\<not> inLoop (new_Context None None False)
   \<and> \<not> (\<exists>r. analyzeStmt (new_Context None None False) 0 BreakStatement = Inr r)
   \<and> \<not> (\<exists>r. analyzeStmt (new_Context None None False) 0 ContinueStatement = Inr r)
   \<and> inLoop (createChildContextForLoop (new_Context None None False))
   \<and> (\<exists>r. analyzeStmt (createChildContextForLoop (new_Context None None False)) 0 BreakStatement = Inr r)
   \<and> (\<exists>r. analyzeStmt (createChildContextForLoop (new_Context None None False)) 0 ContinueStatement = Inr r)
   \<and> \<not> inLoop (createChildContextForFunctionBody
                  (createChildContextForLoop (new_Context None None False)) None)
   \<and> isl (analyzeStmt (createChildContextForLoop (new_Context None None False)) 0
            (FunctionDeclaration False LeftOnRead ''f'' [] (Block [BreakStatement])))"
  using break_continue_need_loop
          [of "new_Context None None False" 0 None False LeftOnRead "''f''" "[]"
              "BooleanLiteral () True" True True]
        break_continue_need_loop
          [of "createChildContextForLoop (new_Context None None False)" 0 None False LeftOnRead
              "''f''" "[]" "BooleanLiteral () True" True True]
  by (simp add: new_Context_def del: analyzeStmt.simps)

subsection \<open>Switch\<close>

lemma analyzeCases_guards:
  "analyzeCases c n cs = Inr (c', n', cs') \<Longrightarrow>
   length cs' = length cs \<and> (\<forall>k \<in> set cs'. etype (guard k) = Some BooleanType)"
proof (induction cs arbitrary: c n c' n' cs')
  case Nil
  then show ?case by simp
next
  case (Cons k ks)
  obtain e body where k: "k = Case e body" by (cases k)
  from Cons.prems k obtain n1 e1 c1 n2 body1 cs1 where
    e: "analyzeExp c n e = Inr (n1, e1)" and b: "isBoolean e1 = Inr ()"
    and r: "analyzeCases c1 n2 ks = Inr (c', n', cs1)" and cs': "cs' = Case e1 body1 # cs1"
    by (auto split: sum.splits)
  from b have "etype e1 = Some BooleanType"
    by (simp add: isBoolean_def doCheck_def split: if_splits)
  with Cons.IH [OF r] cs' show ?case by simp
qed

lemma analyzeCases_append:
  "analyzeCases c n (xs @ ys) =
     (case analyzeCases c n xs of
        Inl x \<Rightarrow> Inl x
      | Inr (c1, n1, xs') \<Rightarrow>
        (case analyzeCases c1 n1 ys of
           Inl x \<Rightarrow> Inl x
         | Inr (c2, n2, ys') \<Rightarrow> Inr (c2, n2, xs' @ ys')))"
proof (induction xs arbitrary: c n)
  case Nil
  then show ?case by (simp split: sum.splits)
next
  case (Cons k ks)
  obtain e body where k: "k = Case e body" by (cases k)
  show ?case
    by (simp add: k Cons.IH split: sum.splits)
qed

text \<open>
  C7. If the analysis of a switch statement succeeds, then the scrutinee was
  analyzed and every case of the annotated statement has a guard of type
  Boolean. Once the scrutinee is analyzed, the outcome is that of the cases,
  computed from the context and the reference counter alone: the type of the
  scrutinee is neither constrained nor compared with anything. A case whose
  guard, analyzed in the context that the cases before it leave, types to
  anything but Boolean makes the analysis fail.
\<close>

theorem switch_guards_boolean:
  "(analyzeStmt c n (SwitchStatement e cases alt) = Inr (c', n', s') \<longrightarrow>
      (\<exists>n1 e' cases'. analyzeExp c n e = Inr (n1, e')
         \<and> s' = SwitchStatement e' cases' (map_option unanalyzed_default alt)
         \<and> length cases' = length cases
         \<and> (\<forall>k \<in> set cases'. etype (guard k) = Some BooleanType)))
   \<and> (analyzeExp c n e = Inr (n1, e1) \<longrightarrow>
      analyzeStmt c n (SwitchStatement e cases alt) =
        (case analyzeCases c n1 cases of
           Inl x \<Rightarrow> Inl x
         | Inr (c1, n2, cases') \<Rightarrow>
             Inr (c1, n2, SwitchStatement e1 cases' (map_option unanalyzed_default alt))))
   \<and> (analyzeExp c n e = Inr (n1, e1) \<and> analyzeCases c n1 before = Inr (c2, n2, before')
        \<and> analyzeExp c2 n2 g = Inr (n3, g') \<and> etype g' \<noteq> Some BooleanType \<longrightarrow>
      analyzeStmt c n (SwitchStatement e (before @ Case g body # after) alt) =
        Inl (CheckError ''isBoolean''))"
proof -
  have a: "analyzeStmt c n (SwitchStatement e cases alt) = Inr (c', n', s') \<longrightarrow>
      (\<exists>n1 e' cases'. analyzeExp c n e = Inr (n1, e')
         \<and> s' = SwitchStatement e' cases' (map_option unanalyzed_default alt)
         \<and> length cases' = length cases
         \<and> (\<forall>k \<in> set cases'. etype (guard k) = Some BooleanType))"
    by (auto split: sum.splits dest!: analyzeCases_guards)
  have b: "analyzeExp c n e = Inr (n1, e1) \<longrightarrow>
      analyzeStmt c n (SwitchStatement e cases alt) =
        (case analyzeCases c n1 cases of
           Inl x \<Rightarrow> Inl x
         | Inr (c1, n2, cases') \<Rightarrow>
             Inr (c1, n2, SwitchStatement e1 cases' (map_option unanalyzed_default alt)))"
    by (simp split: sum.splits)
  have d: "analyzeExp c n e = Inr (n1, e1) \<and> analyzeCases c n1 before = Inr (c2, n2, before')
        \<and> analyzeExp c2 n2 g = Inr (n3, g') \<and> etype g' \<noteq> Some BooleanType \<longrightarrow>
      analyzeStmt c n (SwitchStatement e (before @ Case g body # after) alt) =
        Inl (CheckError ''isBoolean'')"
    by (simp add: analyzeCases_append isBoolean_def doCheck_def)
  show ?thesis using a b d by blast
qed

text \<open>
  The theorem at a scrutinee of type Integer: with a Boolean guard the
  statement is accepted; with a second guard of type Integer, the type of the
  scrutinee, it is rejected.
\<close>

theorem switch_guards_boolean_witness:
  "analyzeStmt (new_Context None None False) 0
     (SwitchStatement (NumericLiteral () 7) [Case (BooleanLiteral () True) (Block [])] None) =
     Inr (new_Context None None False, 0,
          SwitchStatement (NumericLiteral (Some IntType) 7)
            [Case (BooleanLiteral (Some BooleanType) True) (Block [])] None)
   \<and> analyzeExp (new_Context None None False) 0 (NumericLiteral () 7) =
       Inr (0, NumericLiteral (Some IntType) 7)
   \<and> analyzeCases (new_Context None None False) 0 [Case (BooleanLiteral () True) (Block [])] =
       Inr (new_Context None None False, 0, [Case (BooleanLiteral (Some BooleanType) True) (Block [])])
   \<and> etype (NumericLiteral (Some IntType) 7) \<noteq> Some BooleanType
   \<and> analyzeStmt (new_Context None None False) 0
       (SwitchStatement (NumericLiteral () 7)
          ([Case (BooleanLiteral () True) (Block [])] @ Case (NumericLiteral () 7) (Block []) # []) None) =
       Inl (CheckError ''isBoolean'')"
  using switch_guards_boolean
          [where c = "new_Context None None False" and n = 0 and e = "NumericLiteral () 7"
             and cases = "[Case (BooleanLiteral () True) (Block [])]" and alt = None
             and c' = "new_Context None None False" and n' = 0
             and s' = "SwitchStatement (NumericLiteral (Some IntType) 7)
                         [Case (BooleanLiteral (Some BooleanType) True) (Block [])] None"
             and ?n1.0 = 0 and ?e1.0 = "NumericLiteral (Some IntType) 7"
             and before = "[Case (BooleanLiteral () True) (Block [])]"
             and ?c2.0 = "new_Context None None False" and ?n2.0 = 0
             and before' = "[Case (BooleanLiteral (Some BooleanType) True) (Block [])]"
             and g = "NumericLiteral () 7" and ?n3.0 = 0 and g' = "NumericLiteral (Some IntType) 7"
             and body = "Block []" and after = "[]"]
  by (simp add: isBoolean_def doCheck_def)

subsection \<open>Where the code departs from the specification\<close>

lemma INITIAL_has_no_variable: "map_has (variableDeclarations (INITIAL fs ps)) i = False"
  using INITIAL_variables [of fs ps i] by (simp add: map_get_def map_has_def)

text \<open>
  The print rule does not touch its argument (the call that would analyze it
  is commented out in the source), and the unary rule sets no type for an
  operator other than the three it names.
\<close>

lemma PrintStatement_skips:
  "analyzeStmt c n (PrintStatement e) = Inr (c, n, PrintStatement (unanalyzed e))"
  by simp

lemma UnaryExpression_falls_through:
  "op \<notin> {''BANGENERGY'', ''-'', ''+''} \<Longrightarrow> analyzeExp c n operand = Inr (n', operand') \<Longrightarrow>
   analyzeExp c n (UnaryExpression u op operand) = Inr (n', UnaryExpression None op operand')"
  by (simp add: UnaryExpression_type_def)

text \<open>
  C1 (the code departs from the claim). The claim says that in an accepted
  program every expression node has a type after the analysis, the argument
  of a print statement included. The program that prints the string literal
  \<^verbatim>\<open>"hi"\<close> is accepted, and in the analyzed tree the literal has no type.
\<close>

theorem print_argument_left_untyped:
  "analyze standardFunctions primitives n (Program [PrintStatement (StringLiteral () ''hi'')]) =
     Inr (INITIAL standardFunctions primitives, n, Program [PrintStatement (StringLiteral None ''hi'')])
   \<and> etype (StringLiteral None ''hi'') = None"
  by (simp add: analyze_def unanalyzed_def)

text \<open>
  C2 (the code departs from the claim). The claim says that in a function
  declared with the void marker a return that carries an expression fails.
  The program that declares \<^verbatim>\<open>f\<close> with the marker \<^verbatim>\<open>leftOnRead\<close> and
  the body "return the none literal" is accepted: the rule tests the
  \<^verbatim>\<open>type\<close> property of the return node, which the parser does not set, and
  the type of the literal is assignable to the normalized return type.
\<close>

theorem void_function_returns_value:
  "\<exists>c'. analyze standardFunctions primitives n
     (Program [FunctionDeclaration False LeftOnRead ''f'' []
                 (Block [ReturnStatement None (Some (NoneLiteral ()))])]) =
     Inr (c', n, Program [FunctionDeclaration False (Declared NoneType) ''f'' []
                 (Block [ReturnStatement None (Some (NoneLiteral (Some NoneType)))])])"
  by (simp add: analyze_def addVar_def INITIAL_has_no_variable createChildContextForFunctionBody_def
        new_Context_def with_parent_def inFunction_def doCheck_def isAssignableTo_def
        currentFunction_type_def assignable_def type_equal_def)

text \<open>
  C4 (the code departs from the claim). The claim says that the analysis of a
  switch statement analyzes the body of its default case, so that a violation
  in that body aborts the analysis. The program whose only statement is a
  switch with no case and a default body that assigns to the undeclared
  variable \<^verbatim>\<open>day\<close> is accepted, and the body is left without any type,
  although the analysis of that body on its own, in the same context, fails:
  the rule builds a new default case object and never calls \<^verbatim>\<open>analyze\<close>
  on it.
\<close>

theorem default_body_not_analyzed:
  "analyze standardFunctions primitives n
     (Program [SwitchStatement (NumericLiteral () 0) []
        (Some (DefaultCase (Block
           [AssignmentStatement [IdentifierExpression () ''day''] [StringLiteral () ''Weekday'']])))]) =
     Inr (INITIAL standardFunctions primitives, n,
          Program [SwitchStatement (NumericLiteral (Some IntType) 0) []
            (Some (DefaultCase (Block
               [AssignmentStatement [IdentifierExpression None ''day''] [StringLiteral None ''Weekday'']])))])
   \<and> analyzeBlock (INITIAL standardFunctions primitives) n
        (Block [AssignmentStatement [IdentifierExpression () ''day''] [StringLiteral () ''Weekday'']]) =
     Inl (Error ''Identifier day has not been declared'')"
  by (simp add: analyze_def unanalyzed_default_def AssignmentStatement_analyze_def lookupVar_INITIAL
        not_declared_def)

text \<open>
  What the tuple rule does guarantee: the member types of a non-empty tuple
  are the types of its elements, each object once; and an empty tuple literal
  gets a set type with member type None.
\<close>

lemma foldl_set_add_distinct: "distinct acc \<Longrightarrow> distinct (foldl set_add acc xs)"
  by (induction xs arbitrary: acc) (simp_all add: set_add_def)

lemma foldl_set_add_set: "set (foldl set_add acc xs) = set acc \<union> set xs"
  by (induction xs arbitrary: acc) (auto simp: set_add_def)

lemma TupleExpression_members:
  "es \<noteq> [] \<Longrightarrow> analyzeExps c n es = Inr (n', es') \<Longrightarrow>
   \<exists>ms. analyzeExp c n (TupleExpression u es) =
           Inr (Suc n', TupleExpression (Some (TupleType n' ms)) es')
        \<and> distinct ms \<and> set ms = etype ` set es'"
  by (cases es)
     (auto simp: TupleExpression_type_def foldl_set_add_distinct foldl_set_add_set split: sum.splits)

lemma TupleExpression_empty:
  "analyzeExp c n (TupleExpression u []) =
     Inr (Suc n, TupleExpression (Some (SetType n (Some NoneType))) [])"
  by (simp add: TupleExpression_type_def)

text \<open>
  C8 (the code departs from the claim). The claim says that the member-type
  list of a tuple type has no two equal types. The tuple literal of the two
  array literals \<^verbatim>\<open>[1]\<close> and \<^verbatim>\<open>[2]\<close> gets a tuple type with two
  members, both array of Integer and equal as types: each array literal makes
  a descriptor object of its own, and the set that collects the member types
  tells objects apart by identity.
\<close>

theorem tuple_keeps_equal_types:
  "analyzeExp c n (TupleExpression ()
      [ArrayExpression () [NumericLiteral () 1], ArrayExpression () [NumericLiteral () 2]]) =
     Inr (n + 3, TupleExpression
           (Some (TupleType (n + 2)
              [Some (ArrayType n (Some IntType)), Some (ArrayType (n + 1) (Some IntType))]))
           [ArrayExpression (Some (ArrayType n (Some IntType))) [NumericLiteral (Some IntType) 1],
            ArrayExpression (Some (ArrayType (n + 1) (Some IntType))) [NumericLiteral (Some IntType) 2]])
   \<and> type_equal (ArrayType n (Some IntType)) (ArrayType (n + 1) (Some IntType))"
  by (simp add: ArrayExpression_type_def TupleExpression_type_def set_add_def type_equal_def)

end
